theory Spec2Isabelle
  imports Main "HOL-Library.AList"
begin

section \<open>The rollout server of \<^verbatim>\<open>remote_server.py\<close>\<close>

text \<open>
  The module has one request handler, \<^verbatim>\<open>init\<close>, which registers a logging filter,
  defines the closure \<^verbatim>\<open>_worker\<close> and starts it on a daemon thread. Everything the
  worker does besides logging is a call into a collaborator (the OpenAI client), so the
  model takes the collaborators' behaviour as a parameter and records what the worker
  does as a trace of events in program order.
\<close>

subsection \<open>Request data\<close>

text \<open>
  The values of \<^verbatim>\<open>completion_params\<close> are arbitrary JSON values. Only their Python
  truth value matters to the code (\<^verbatim>\<open>if not model\<close>); floating-point numbers are left
  out of the value type.
\<close>

datatype jvalue =
    JNull
  | JBool bool
  | JInt int
  | JStr string
  | JList "jvalue list"
  | JDict "(string \<times> jvalue) list"

fun truthy :: "jvalue \<Rightarrow> bool" where
  "truthy JNull = False"
| "truthy (JBool b) = b"
| "truthy (JInt i) = (i \<noteq> 0)"
| "truthy (JStr s) = (s \<noteq> [])"
| "truthy (JList xs) = (xs \<noteq> [])"
| "truthy (JDict kvs) = (kvs \<noteq> [])"

text \<open>Truth value of an optional list (\<^verbatim>\<open>None\<close> and \<^verbatim>\<open>[]\<close> are false).\<close>

fun truthy_list :: "'a list option \<Rightarrow> bool" where
  "truthy_list None = False"
| "truthy_list (Some xs) = (xs \<noteq> [])"

text \<open>Truth value of the result of \<^verbatim>\<open>dict.get\<close> (\<^verbatim>\<open>None\<close> when the key is absent).\<close>

fun truthy_get :: "jvalue option \<Rightarrow> bool" where
  "truthy_get None = False"
| "truthy_get (Some v) = truthy v"

record message =
  role :: string
  content :: string

type_synonym tool = "(string \<times> jvalue) list"

record metadata =
  rollout_id :: string

text \<open>
  The fields of \<^verbatim>\<open>InitRequest\<close> that the handler reads. A Python dict is an association
  list in insertion order.
\<close>

record request =
  metadata :: metadata
  messages :: "message list option"
  completion_params :: "(string \<times> jvalue) list"
  tools :: "tool list option"
  model_base_url :: "string option"

subsection \<open>Call arguments\<close>

datatype kwarg =
    Messages "message list"
  | Param jvalue
  | Tools "tool list"

type_synonym kwargs = "(string \<times> kwarg) list"

text \<open>
  \<^verbatim>\<open>{**base, **extra}\<close>: the entries of \<^verbatim>\<open>extra\<close> are stored one after the other; a key
  that is already there keeps its place and takes the new value.
\<close>

definition dict_spread :: "('k \<times> 'v) list \<Rightarrow> ('k \<times> 'v) list \<Rightarrow> ('k \<times> 'v) list" where
  "dict_spread base extra = fold (\<lambda>(k, v). AList.update k v) extra base"

text \<open>
  \<^verbatim>\<open>completion_kwargs = {"messages": req.messages, **req.completion_params}\<close>, then
  \<^verbatim>\<open>if req.tools: completion_kwargs["tools"] = req.tools\<close>. The function is used only
  after \<^verbatim>\<open>req.messages\<close> was found true, so the messages are passed as a list.
\<close>

definition completion_kwargs :: "message list \<Rightarrow> request \<Rightarrow> kwargs" where
  "completion_kwargs ms req =
     (let kw = dict_spread [(''messages'', Messages ms)]
                 (map (\<lambda>(k, v). (k, Param v)) (completion_params req))
      in case tools req of
           None \<Rightarrow> kw
         | Some ts \<Rightarrow> if ts \<noteq> [] then AList.update ''tools'' (Tools ts) kw else kw)"

subsection \<open>Exceptions, statuses and log records\<close>

text \<open>
  A raised Python exception with its text. \<open>Other_Exception\<close> is any other subclass of
  \<^verbatim>\<open>Exception\<close> (class name and text), as the client library raises them;
  \<open>Base_Exception\<close> is an exception outside the class \<^verbatim>\<open>Exception\<close>
  (\<^verbatim>\<open>SystemExit\<close>, \<^verbatim>\<open>KeyboardInterrupt\<close>), which \<^verbatim>\<open>except Exception\<close> lets through.
\<close>

datatype exn =
    ValueError string
  | RuntimeError string
  | Other_Exception string string
  | Base_Exception string string

fun is_Exception :: "exn \<Rightarrow> bool" where
  "is_Exception (Base_Exception c m) = False"
| "is_Exception e = True"

text \<open>
  The values of \<^verbatim>\<open>eval_protocol.Status\<close>: the code builds
  \<^verbatim>\<open>Status.rollout_error(msg)\<close> and \<^verbatim>\<open>Status.rollout_finished()\<close>.
\<close>

datatype status = Running | Finished | Error string

fun is_terminal :: "status \<Rightarrow> bool" where
  "is_terminal Running = False"
| "is_terminal Finished = True"
| "is_terminal (Error m) = True"

text \<open>The levels of Python's \<^verbatim>\<open>logging\<close> with their numbers.\<close>

datatype level = DEBUG | INFO | WARNING | ERROR | CRITICAL

fun levelno :: "level \<Rightarrow> nat" where
  "levelno DEBUG = 10"
| "levelno INFO = 20"
| "levelno WARNING = 30"
| "levelno ERROR = 40"
| "levelno CRITICAL = 50"

text \<open>
  \<^verbatim>\<open>Logger.isEnabledFor\<close>, which \<^verbatim>\<open>logger.info\<close> and \<^verbatim>\<open>logger.error\<close> test before they
  make a record. No line of the module sets a level (there is no \<^verbatim>\<open>setLevel\<close> and no
  \<^verbatim>\<open>basicConfig\<close>): the loggers \<^verbatim>\<open>getLogger(f"{__name__}.{rollout_id}")\<close> are created
  without one and take the root logger's, which is \<^verbatim>\<open>WARNING\<close>.
\<close>

definition isEnabledFor :: "level \<Rightarrow> bool" where
  "isEnabledFor l = (levelno WARNING \<le> levelno l)"

type_synonym completion = string

text \<open>The text of a log record: which f-string of the source, and its arguments.\<close>

datatype log_msg =
    Final_completion_kwargs kwargs
  | Sending_completion_request jvalue
  | Completed_response completion
  | Forced_error string
  | Error_in_rollout string exn
  | Rollout_completed string

text \<open>
  The content of a logging call: the logger it is made on, the id that the
  \<^verbatim>\<open>RolloutIdFilter\<close> registered by \<^verbatim>\<open>init\<close> stamps on a record of that logger, the level
  of the call, its text and the \<^verbatim>\<open>extra\<close> status.
\<close>

record log_record =
  logger :: string
  rid :: string
  levelname :: level
  msg :: log_msg
  status :: "status option"

subsection \<open>Process-wide values and collaborators\<close>

text \<open>
  \<open>name\<close> is the module's \<^verbatim>\<open>__name__\<close>; \<open>force_early_error_message\<close> is the global that
  \<^verbatim>\<open>main\<close> sets from \<^verbatim>\<open>--force-early-error\<close> (default \<^verbatim>\<open>None\<close>). The code tests it by
  truth value, so \<^verbatim>\<open>None\<close> and the empty string both count as not set.
\<close>

record globals =
  name :: string
  force_early_error_message :: "string option"

fun override :: "string option \<Rightarrow> string option" where
  "override None = None"
| "override (Some m) = (if m = [] then None else Some m)"

record client =
  base_url :: "string option"
  api_key :: "string option"

text \<open>
  What lies outside the module: the environment variable, the constructor \<^verbatim>\<open>OpenAI\<close> and
  \<^verbatim>\<open>client.chat.completions.create\<close>. Each call returns or raises.
\<close>

record world =
  FIREWORKS_API_KEY :: "string option"
  OpenAI :: "string option \<Rightarrow> string option \<Rightarrow> exn + client"
  create :: "client \<Rightarrow> kwargs \<Rightarrow> exn + completion"


text \<open>
  What a run of the worker does, in program order. A logging call is \<open>Logged\<close> when its
  level is enabled: the record is made and reaches the handlers, the tracing handler
  among them. It is \<open>Discarded\<close> when the level is not enabled: the call returns and no
  record exists. The other events are the call of the constructor \<^verbatim>\<open>OpenAI\<close> with its
  two arguments and the call of \<^verbatim>\<open>create\<close> with the call arguments; such a call is an
  event whether it returns or raises.
\<close>

datatype event =
    Logged log_record
  | Discarded log_record
  | Client_constructed "string option" "string option"
  | Completion_requested kwargs

subsection \<open>The worker\<close>

definition logger_name :: "globals \<Rightarrow> request \<Rightarrow> string" where
  "logger_name g req = name g @ ''.'' @ rollout_id (metadata req)"

text \<open>A call \<^verbatim>\<open>logger.info(...)\<close> or \<^verbatim>\<open>logger.error(...)\<close> of the worker.\<close>

definition emit :: "globals \<Rightarrow> request \<Rightarrow> level \<Rightarrow> log_msg \<Rightarrow> status option \<Rightarrow> event" where
  "emit g req l m s =
     (let r = \<lparr>logger = logger_name g req, rid = rollout_id (metadata req),
                levelname = l, msg = m, status = s\<rparr>
      in if isEnabledFor l then Logged r else Discarded r)"

text \<open>
  The body of the \<^verbatim>\<open>try\<close> block: the events it produced, and the exception that ended
  it, if one did.
\<close>

definition worker_try :: "globals \<Rightarrow> world \<Rightarrow> request \<Rightarrow> event list \<times> exn option" where
  "worker_try g w req =
     (case messages req of
        None \<Rightarrow> ([], Some (ValueError ''messages is required''))
      | Some ms \<Rightarrow>
          if ms = [] then ([], Some (ValueError ''messages is required''))
          else
            (case map_of (completion_params req) ''model'' of
               None \<Rightarrow> ([], Some (ValueError ''model is required in completion_params''))
             | Some model \<Rightarrow>
                 if \<not> truthy model
                 then ([], Some (ValueError ''model is required in completion_params''))
                 else
                   (let kw = completion_kwargs ms req;
                        t1 = [emit g req INFO (Final_completion_kwargs kw) None,
                              Client_constructed (model_base_url req) (FIREWORKS_API_KEY w)]
                    in case OpenAI w (model_base_url req) (FIREWORKS_API_KEY w) of
                         Inl e \<Rightarrow> (t1, Some e)
                       | Inr c \<Rightarrow>
                           (let t2 = t1 @ [emit g req INFO (Sending_completion_request model) None,
                                          Completion_requested kw]
                            in case create w c kw of
                                 Inl e \<Rightarrow> (t2, Some e)
                               | Inr r \<Rightarrow>
                                   (let t3 = t2 @ [emit g req INFO (Completed_response r) None]
                                    in case override (force_early_error_message g) of
                                         None \<Rightarrow> (t3, None)
                                       | Some m \<Rightarrow>
                                           (t3 @ [emit g req ERROR (Forced_error m) (Some (Error m))],
                                            Some (RuntimeError m)))))))"

text \<open>
  \<^verbatim>\<open>except Exception as e\<close>: an instance of \<^verbatim>\<open>Exception\<close> is logged at error level,
  without a status, and dropped; anything else goes on after the \<^verbatim>\<open>finally\<close> block.
\<close>

definition worker_except :: "globals \<Rightarrow> request \<Rightarrow> event list \<times> exn option \<Rightarrow> event list \<times> exn option" where
  "worker_except g req r =
     (case snd r of
        None \<Rightarrow> r
      | Some e \<Rightarrow>
          if is_Exception e
          then (fst r @ [emit g req ERROR (Error_in_rollout (rollout_id (metadata req)) e) None], None)
          else r)"

text \<open>\<^verbatim>\<open>finally: if not force_early_error_message: logger.info(..., status finished)\<close>.\<close>

definition worker_finally :: "globals \<Rightarrow> request \<Rightarrow> event list \<times> exn option \<Rightarrow> event list \<times> exn option" where
  "worker_finally g req r =
     (case override (force_early_error_message g) of
        None \<Rightarrow> (fst r @ [emit g req INFO (Rollout_completed (rollout_id (metadata req))) (Some Finished)],
                 snd r)
      | Some m \<Rightarrow> r)"

text \<open>
  One run of \<^verbatim>\<open>_worker\<close>: its events, and the exception that leaves it (\<open>None\<close> when it
  returns).
\<close>

definition worker :: "globals \<Rightarrow> world \<Rightarrow> request \<Rightarrow> event list \<times> exn option" where
  "worker g w req = worker_finally g req (worker_except g req (worker_try g w req))"

text \<open>
  The two tests at the head of the \<^verbatim>\<open>try\<close> block, \<^verbatim>\<open>if not req.messages\<close> and
  \<^verbatim>\<open>if not model\<close>, as one predicate, and the text of the \<^verbatim>\<open>ValueError\<close> raised when
  one of them fails (the messages are tested first).
\<close>

definition passes_checks :: "request \<Rightarrow> bool" where
  "passes_checks req =
     (truthy_list (messages req) \<and> truthy_get (map_of (completion_params req) ''model''))"

definition complaint :: "request \<Rightarrow> string" where
  "complaint req =
     (if truthy_list (messages req) then ''model is required in completion_params''
      else ''messages is required'')"

subsection \<open>What a poller reads from the trace\<close>

text \<open>The records that were made: a discarded call leaves none.\<close>

fun records :: "event list \<Rightarrow> log_record list" where
  "records [] = []"
| "records (Logged r # es) = r # records es"
| "records (e # es) = records es"

fun terminal :: "log_record \<Rightarrow> bool" where
  "terminal r = (case status r of None \<Rightarrow> False | Some s \<Rightarrow> is_terminal s)"

text \<open>The calls into the client library, as opposed to the log records.\<close>

fun is_call :: "event \<Rightarrow> bool" where
  "is_call (Logged r) = False"
| "is_call (Discarded r) = False"
| "is_call e = True"

text \<open>The records of a trace that carry a given rollout id.\<close>

definition records_for :: "string \<Rightarrow> event list \<Rightarrow> log_record list" where
  "records_for i es = filter (\<lambda>r. rid r = i) (records es)"

text \<open>The terminal statuses logged for a rollout id, in order.\<close>

definition terminal_statuses :: "string \<Rightarrow> event list \<Rightarrow> status list" where
  "terminal_statuses i es = List.map_filter status (filter terminal (records_for i es))"

subsection \<open>The handler and the process\<close>

text \<open>
  The process-wide state \<^verbatim>\<open>init\<close> touches: the filters registered on named loggers
  (\<^verbatim>\<open>addFilter\<close> appends; each \<^verbatim>\<open>RolloutIdFilter\<close> is a new object), the daemon threads
  started and not yet run, the events emitted so far, and the exceptions that left a
  worker: such an exception ends its thread and goes to \<^verbatim>\<open>threading.excepthook\<close>, and the
  process goes on.
\<close>

record process =
  filters :: "(string \<times> string) list"
  threads :: "request list"
  emitted :: "event list"
  escaped :: "exn list"

text \<open>
  \<^verbatim>\<open>init\<close> has no \<^verbatim>\<open>return\<close> and no \<^verbatim>\<open>raise\<close> of its own: the result is \<open>Inr ()\<close>
  (Python's \<^verbatim>\<open>None\<close>); \<open>Inl\<close> would be an exception handed to the caller.
\<close>

definition init :: "globals \<Rightarrow> process \<Rightarrow> request \<Rightarrow> (exn + unit) \<times> process" where
  "init g p req =
     (Inr (),
      p\<lparr>filters := filters p @ [(logger_name g req, rollout_id (metadata req))],
        threads := threads p @ [req]\<rparr>)"

text \<open>
  The operations of the process: a call of the handler, and the scheduler running the
  \<open>n\<close>-th waiting thread to its end in a given world.
\<close>

datatype operation = Init request | Run nat world

fun step :: "globals \<Rightarrow> process \<Rightarrow> operation \<Rightarrow> process" where
  "step g p (Init req) = snd (init g p req)"
| "step g p (Run n w) =
     (if n < length (threads p)
      then p\<lparr>threads := take n (threads p) @ drop (Suc n) (threads p),
             emitted := emitted p @ fst (worker g w (threads p ! n)),
             escaped := escaped p @ (case snd (worker g w (threads p ! n)) of
                                       None \<Rightarrow> [] | Some e \<Rightarrow> [e])\<rparr>
      else p)"

definition exec :: "globals \<Rightarrow> process \<Rightarrow> operation list \<Rightarrow> process" where
  "exec g p ops = foldl (step g) p ops"

subsection \<open>Concrete inputs\<close>

text \<open>
  The request of the spec's scenario, variants of it without messages, without a model,
  with an empty and with a non-empty list of tools, the two settings of the override,
  a world whose completion call answers, one whose call fails with an error of the
  client library and one whose call raises \<^verbatim>\<open>SystemExit\<close>, and a process that has served
  nothing yet.
\<close>

definition hello_request :: request where
  "hello_request =
     \<lparr>metadata = \<lparr>rollout_id = ''r1''\<rparr>,
      messages = Some [\<lparr>role = ''user'', content = ''hi''\<rparr>],
      completion_params = [(''model'', JStr ''m'')],
      tools = None,
      model_base_url = None\<rparr>"

definition no_messages_request :: request where
  "no_messages_request = hello_request\<lparr>messages := Some []\<rparr>"


definition empty_tools_request :: request where
  "empty_tools_request = hello_request\<lparr>tools := Some []\<rparr>"

definition tooled_request :: request where
  "tooled_request = hello_request\<lparr>tools := Some [[(''type'', JStr ''function'')]]\<rparr>"

definition plain :: globals where
  "plain = \<lparr>name = ''remote_server'', force_early_error_message = None\<rparr>"

definition forced :: globals where
  "forced = \<lparr>name = ''remote_server'', force_early_error_message = Some ''boom''\<rparr>"

definition answering :: world where
  "answering =
     \<lparr>FIREWORKS_API_KEY = Some ''key'',
      OpenAI = (\<lambda>u k. Inr \<lparr>base_url = u, api_key = k\<rparr>),
      create = (\<lambda>c kw. Inr ''Paris'')\<rparr>"

definition unreachable :: world where
  "unreachable =
     \<lparr>FIREWORKS_API_KEY = Some ''key'',
      OpenAI = (\<lambda>u k. Inr \<lparr>base_url = u, api_key = k\<rparr>),
      create = (\<lambda>c kw. Inl (Other_Exception ''APIConnectionError'' ''Connection error.''))\<rparr>"


definition idle :: process where
  "idle = \<lparr>filters = [], threads = [], emitted = [], escaped = []\<rparr>"

section \<open>Properties\<close>

subsection \<open>The logging level\<close>

text \<open>
  At the level the loggers have, a call of \<^verbatim>\<open>logger.info\<close> makes no record and a call of
  \<^verbatim>\<open>logger.error\<close> makes one.
\<close>

lemma isEnabledFor_simps: "isEnabledFor INFO = False" "isEnabledFor ERROR = True"
  by (simp_all add: isEnabledFor_def)

lemma emit_INFO:
  "emit g req INFO m s =
     Discarded \<lparr>logger = logger_name g req, rid = rollout_id (metadata req),
                levelname = INFO, msg = m, status = s\<rparr>"
  by (simp add: emit_def isEnabledFor_simps)

lemma emit_ERROR:
  "emit g req ERROR m s =
     Logged \<lparr>logger = logger_name g req, rid = rollout_id (metadata req),
             levelname = ERROR, msg = m, status = s\<rparr>"
  by (simp add: emit_def isEnabledFor_simps)

subsection \<open>Reading a trace\<close>

lemma records_append: "records (xs @ ys) = records xs @ records ys"
  by (induction xs rule: records.induct) simp_all

lemma records_for_append: "records_for i (xs @ ys) = records_for i xs @ records_for i ys"
  by (simp add: records_for_def records_append)

lemma records_for_simps:
  "records_for i [] = []"
  "records_for i (Logged r # es) = (if rid r = i then r # records_for i es else records_for i es)"
  "records_for i (Discarded r # es) = records_for i es"
  "records_for i (Client_constructed u k # es) = records_for i es"
  "records_for i (Completion_requested kw # es) = records_for i es"
  by (simp_all add: records_for_def)

lemma terminal_statuses_append:
  "terminal_statuses i (xs @ ys) = terminal_statuses i xs @ terminal_statuses i ys"
  by (simp add: terminal_statuses_def records_for_append List.map_filter_def)

lemma terminal_statuses_simps:
  "terminal_statuses i [] = []"
  "terminal_statuses i (Logged r # es) =
     (if rid r = i \<and> terminal r then [the (status r)] else []) @ terminal_statuses i es"
  "terminal_statuses i (Discarded r # es) = terminal_statuses i es"
  "terminal_statuses i (Client_constructed u k # es) = terminal_statuses i es"
  "terminal_statuses i (Completion_requested kw # es) = terminal_statuses i es"
  by (auto simp add: terminal_statuses_def records_for_def List.map_filter_def
      split: option.splits)

subsection \<open>The three blocks of the worker\<close>

text \<open>
  A request that fails one of the two tests ends the \<^verbatim>\<open>try\<close> block at once.
\<close>

lemma worker_try_rejects:
  "\<not> passes_checks req \<Longrightarrow> worker_try g w req = ([], Some (ValueError (complaint req)))"
  by (cases "messages req"; cases "map_of (completion_params req) ''model''")
     (auto simp add: passes_checks_def complaint_def worker_try_def)

lemma worker_rejects:
  assumes "\<not> passes_checks req"
  shows "worker g w req =
     (emit g req ERROR
        (Error_in_rollout (rollout_id (metadata req)) (ValueError (complaint req))) None #
        (case override (force_early_error_message g) of
           None \<Rightarrow> [emit g req INFO (Rollout_completed (rollout_id (metadata req)))
                      (Some Finished)]
         | Some m \<Rightarrow> []),
      None)"
  by (simp add: worker_def worker_try_rejects [OF assms] worker_except_def worker_finally_def
      split: option.splits)

text \<open>
  The only status the \<^verbatim>\<open>try\<close> block can log is the error of the override, with
  \<^verbatim>\<open>logger.error\<close>. The \<^verbatim>\<open>except\<close> block logs no status, and the status of the
  \<^verbatim>\<open>finally\<close> block is logged with \<^verbatim>\<open>logger.info\<close>: it never becomes a record.
\<close>

lemma worker_try_statuses:
  "terminal_statuses i (fst (worker_try g w req)) = []
   \<or> (\<exists>m. terminal_statuses i (fst (worker_try g w req)) = [Error m])"
  by (simp add: worker_try_def Let_def terminal_statuses_append terminal_statuses_simps
      emit_INFO emit_ERROR split: option.splits sum.splits)

lemma worker_statuses:
  "terminal_statuses i (fst (worker g w req)) = terminal_statuses i (fst (worker_try g w req))"
  by (simp add: worker_def worker_finally_def worker_except_def terminal_statuses_append
      terminal_statuses_simps emit_INFO emit_ERROR split: option.splits)

lemma worker_no_Finished: "Finished \<notin> set (terminal_statuses i (fst (worker g w req)))"
  using worker_try_statuses [of i g w req] by (auto simp add: worker_statuses)

lemma worker_unset:
  "override (force_early_error_message g) = None \<Longrightarrow>
   terminal_statuses i (fst (worker g w req)) = []"
  by (simp add: worker_statuses worker_try_def Let_def terminal_statuses_append
      terminal_statuses_simps emit_INFO split: option.splits sum.splits)


text \<open>
  A request that passes the two tests: the logging call with the arguments comes first, then the client is built.
\<close>

lemma worker_try_accepts:
  assumes "messages req = Some ms" and "ms \<noteq> []"
    and "map_of (completion_params req) ''model'' = Some model" and "truthy model"
  shows "\<exists>rest. fst (worker_try g w req) =
      emit g req INFO (Final_completion_kwargs (completion_kwargs ms req)) None #
      Client_constructed (model_base_url req) (FIREWORKS_API_KEY w) # rest
    \<and> (filter is_call rest = []
       \<or> filter is_call rest = [Completion_requested (completion_kwargs ms req)])"
  using assms
  by (simp add: worker_try_def Let_def emit_INFO emit_ERROR split: sum.splits option.splits)

text \<open>
  With the override set, the terminal status depends on whether the \<^verbatim>\<open>try\<close> block gets
  as far as the test of the override, which stands after the completion call.
\<close>

lemma worker_forced_answer:
  assumes "override (force_early_error_message g) = Some m"
    and "messages req = Some ms" and "ms \<noteq> []"
    and "map_of (completion_params req) ''model'' = Some model" and "truthy model"
    and "OpenAI w (model_base_url req) (FIREWORKS_API_KEY w) = Inr c"
    and "create w c (completion_kwargs ms req) = Inr r"
  shows "terminal_statuses (rollout_id (metadata req)) (fst (worker g w req)) = [Error m]"
  using assms
  by (simp add: worker_statuses worker_try_def Let_def terminal_statuses_append
      terminal_statuses_simps emit_INFO emit_ERROR)

lemma worker_forced_failure:
  assumes "override (force_early_error_message g) = Some m"
    and "messages req = Some ms" and "ms \<noteq> []"
    and "map_of (completion_params req) ''model'' = Some model" and "truthy model"
    and "OpenAI w (model_base_url req) (FIREWORKS_API_KEY w) = Inr c"
    and "create w c (completion_kwargs ms req) = Inl e"
  shows "terminal_statuses (rollout_id (metadata req)) (fst (worker g w req)) = []"
  using assms
  by (simp add: worker_statuses worker_try_def Let_def terminal_statuses_append
      terminal_statuses_simps emit_INFO emit_ERROR)

subsection \<open>The merged call arguments as a map\<close>

lemma map_of_dict_spread: "map_of (dict_spread base extra) = map_of base ++ map_of (rev extra)"
proof (induction extra arbitrary: base)
  case Nil
  then show ?case by (simp add: dict_spread_def)
next
  case (Cons x xs)
  obtain k v where x: "x = (k, v)" by (cases x)
  have "map_of (dict_spread base (x # xs)) = map_of (dict_spread (AList.update k v base) xs)"
    by (simp add: dict_spread_def x)
  also have "\<dots> = (map_of base)(k \<mapsto> v) ++ map_of (rev xs)"
    by (simp only: Cons.IH update_conv')
  also have "\<dots> = map_of base ++ map_of (rev (x # xs))"
    by (rule ext) (simp add: x map_add_def split: option.splits)
  finally show ?case .
qed

text \<open>
  The keys of a dict are distinct, so the order of its entries does not matter to a lookup.
\<close>

lemma map_of_rev_distinct: "distinct (map fst xs) \<Longrightarrow> map_of (rev xs) = map_of xs"
proof (induction xs)
  case Nil
  then show ?case by simp
next
  case (Cons x xs)
  obtain k v where x: "x = (k, v)" by (cases x)
  from Cons.prems have "map_of xs k = None"
    by (simp add: x map_of_eq_None_iff)
  with Cons show ?case
    by (auto simp add: x map_add_def fun_eq_iff split: option.splits)
qed

lemma map_of_completion_kwargs:
  assumes "distinct (map fst (completion_params req))"
  shows "map_of (completion_kwargs ms req) k =
     (if k = ''tools'' \<and> truthy_list (tools req) then map_option Tools (tools req)
      else case map_of (completion_params req) k of
             Some v \<Rightarrow> Some (Param v)
           | None \<Rightarrow> if k = ''messages'' then Some (Messages ms) else None)"
proof -
  let ?cp = "map (\<lambda>(k, v). (k, Param v)) (completion_params req)"
  have d: "distinct (map fst ?cp)"
    using assms by (simp add: comp_def case_prod_unfold)
  have "\<And>k. map_of (dict_spread [(''messages'', Messages ms)] ?cp) k =
      (case map_of (completion_params req) k of
             Some v \<Rightarrow> Some (Param v)
           | None \<Rightarrow> if k = ''messages'' then Some (Messages ms) else None)"
    by (simp add: map_of_dict_spread map_of_rev_distinct [OF d] map_of_map map_add_def
        split: option.splits)
  then show ?thesis
    by (cases "tools req") (simp_all add: completion_kwargs_def Let_def update_conv')
qed

subsection \<open>The process\<close>

lemma step_filters: "\<exists>more. filters (step g p op) = filters p @ more"
  by (cases op) (simp_all add: init_def)

lemma exec_filters: "\<exists>more. filters (exec g p ops) = filters p @ more"
proof (induction ops arbitrary: p)
  case Nil
  then show ?case by (simp add: exec_def)
next
  case (Cons op ops)
  obtain a where a: "filters (step g p op) = filters p @ a"
    using step_filters by blast
  obtain b where b: "filters (exec g (step g p op) ops) = filters (step g p op) @ b"
    using Cons.IH by blast
  have "exec g p (op # ops) = exec g (step g p op) ops"
    by (simp add: exec_def)
  with a b show ?case by simp
qed

subsection \<open>The concrete request\<close>

lemma hello_facts:
  "rollout_id (metadata hello_request) = ''r1''"
  "messages hello_request = Some [\<lparr>role = ''user'', content = ''hi''\<rparr>]"
  "completion_params hello_request = [(''model'', JStr ''m'')]"
  "tools hello_request = None"
  "model_base_url hello_request = None"
  "logger_name plain hello_request = ''remote_server.r1''"
  "logger_name forced hello_request = ''remote_server.r1''"
  by (simp_all add: hello_request_def logger_name_def plain_def forced_def)


subsection \<open>Requests that fail the checks\<close>

text \<open>
  Claim C1, as the spec states it: for a request whose \<^verbatim>\<open>messages\<close> is missing or empty,
  or whose \<^verbatim>\<open>completion_params\<close> has no model, \<^verbatim>\<open>init\<close> returns a validation error, starts
  no worker, and no log record for that rollout id is ever produced. The handler does
  none of the three: for the request with \<^verbatim>\<open>messages = []\<close> it returns normally, a thread
  is started, and running that thread leaves a record for the rollout id in the stream.
\<close>

theorem init_rejects_counterexample:
  "\<not> isl (fst (init plain idle no_messages_request))
   \<and> threads (snd (init plain idle no_messages_request)) \<noteq> threads idle
   \<and> records_for ''r1''
        (emitted (exec plain idle [Init no_messages_request, Run 0 answering])) \<noteq> []"
proof -
  have bad: "\<not> passes_checks no_messages_request"
    by (simp add: passes_checks_def no_messages_request_def hello_request_def)
  have id: "rollout_id (metadata no_messages_request) = ''r1''"
    by (simp add: no_messages_request_def hello_request_def)
  show ?thesis
    by (simp add: init_def idle_def exec_def worker_rejects [OF bad] records_for_simps
        emit_ERROR id)
qed

text \<open>
  Claim C1, amended to what the handler does: \<^verbatim>\<open>init\<close> makes no check of its own. For
  every request that fails one of the worker's two tests it returns normally and starts
  a worker; the worker calls neither the client constructor nor the completion
  endpoint, its first event is the error-level record of the \<^verbatim>\<open>ValueError\<close> it raised
  (so the rollout id does get records), and no exception leaves it.
\<close>

theorem init_accepts_unchecked:
  assumes "\<not> passes_checks req"
  shows "fst (init g p req) = Inr ()
       \<and> threads (snd (init g p req)) = threads p @ [req]
       \<and> filter is_call (fst (worker g w req)) = []
       \<and> take 1 (fst (worker g w req)) =
           [emit g req ERROR
              (Error_in_rollout (rollout_id (metadata req)) (ValueError (complaint req))) None]
       \<and> records_for (rollout_id (metadata req)) (fst (worker g w req)) \<noteq> []
       \<and> snd (worker g w req) = None"
  by (simp add: init_def worker_rejects [OF assms] emit_ERROR emit_INFO records_for_simps
      split: option.splits)

theorem init_accepts_unchecked_witness:
  "\<not> passes_checks no_messages_request
   \<and> fst (init plain idle no_messages_request) = Inr ()
   \<and> threads (snd (init plain idle no_messages_request)) = [no_messages_request]
   \<and> filter is_call (fst (worker plain answering no_messages_request)) = []
   \<and> take 1 (fst (worker plain answering no_messages_request)) =
       [Logged \<lparr>logger = ''remote_server.r1'', rid = ''r1'', levelname = ERROR,
                 msg = Error_in_rollout ''r1'' (ValueError ''messages is required''),
                 status = None\<rparr>]
   \<and> snd (worker plain answering no_messages_request) = None"
proof -
  have bad: "\<not> passes_checks no_messages_request"
    by (simp add: passes_checks_def no_messages_request_def hello_request_def)
  have names: "rollout_id (metadata no_messages_request) = ''r1''"
    "logger_name plain no_messages_request = ''remote_server.r1''"
    "complaint no_messages_request = ''messages is required''"
    "threads idle = []"
    by (simp_all add: no_messages_request_def hello_request_def logger_name_def plain_def
        complaint_def idle_def)
  show ?thesis
    using bad init_accepts_unchecked [OF bad, of plain idle answering]
    by (simp add: names emit_ERROR)
qed


subsection \<open>Terminal statuses\<close>

text \<open>
  Claim C2: for every accepted request, whatever the completion call does and whatever
  the override is, the worker's records hold exactly one terminal status for the rollout
  id. The code at the input where it fails: with the override set to \<^verbatim>\<open>"boom"\<close> and a
  completion call that raises, the \<^verbatim>\<open>try\<close> block is left before the override is
  tested, the \<^verbatim>\<open>finally\<close> block logs nothing because the override is set, and the
  worker returns with no terminal status logged.
\<close>

theorem forced_failure_no_terminal:
  "length (terminal_statuses ''r1'' (fst (worker forced unreachable hello_request))) = 0
   \<and> snd (worker forced unreachable hello_request) = None"
  by (simp add: worker_def worker_try_def worker_except_def worker_finally_def Let_def
      hello_facts forced_def unreachable_def terminal_statuses_append terminal_statuses_simps
      emit_INFO emit_ERROR)

text \<open>
  Claim C3: with the override set to a message, the terminal status of every accepted
  rollout is the error with that message, whether the completion call succeeds or
  raises. The code at both inputs, override \<^verbatim>\<open>"boom"\<close>: when the call answers, the
  terminal status is \<open>Error ''boom''\<close>; when the call raises, there is none.
\<close>

theorem forced_failure_not_Error:
  "terminal_statuses ''r1'' (fst (worker forced answering hello_request)) = [Error ''boom'']
   \<and> terminal_statuses ''r1'' (fst (worker forced unreachable hello_request)) = []"
  by (simp add: worker_def worker_try_def worker_except_def worker_finally_def Let_def
      hello_facts forced_def unreachable_def answering_def terminal_statuses_append
      terminal_statuses_simps emit_INFO emit_ERROR)



subsection \<open>The call arguments\<close>

text \<open>
  Claim C6, as the spec states it: the worker adds \<^verbatim>\<open>tools\<close> to the call arguments if
  and only if \<^verbatim>\<open>tools\<close> is present in the request. The code tests \<^verbatim>\<open>if req.tools\<close>, the
  truth value: a request whose \<^verbatim>\<open>tools\<close> is the empty list has the field, and the call
  arguments have no \<^verbatim>\<open>"tools"\<close> entry.
\<close>

theorem tools_iff_present_counterexample:
  "\<not> ((tools empty_tools_request \<noteq> None) =
       (map_of (completion_kwargs [\<lparr>role = ''user'', content = ''hi''\<rparr>] empty_tools_request)
          ''tools'' \<noteq> None))"
  by (simp add: empty_tools_request_def hello_request_def completion_kwargs_def dict_spread_def)

text \<open>
  Claim C6, amended: for a request that passes the two tests, the call arguments are the
  merge of \<^verbatim>\<open>messages\<close> with every entry of \<^verbatim>\<open>completion_params\<close>, an entry of
  \<^verbatim>\<open>completion_params\<close> replacing \<^verbatim>\<open>messages\<close> when it has that name; \<^verbatim>\<open>tools\<close> is set to
  the request's tools if and only if the request's \<^verbatim>\<open>tools\<close> is present and not empty,
  and then replaces an entry of that name. The worker's first action is the call of
  \<^verbatim>\<open>logger.info\<close> with these arguments, before the client is built, and the only
  completion request it can make carries the same arguments. What the logger makes of
  the call is the matter of \<open>emit\<close>; the concrete run shows it discarded.
\<close>

theorem kwargs_merged_and_logged:
  assumes "distinct (map fst (completion_params req))"
    and "messages req = Some ms" and "ms \<noteq> []"
    and "map_of (completion_params req) ''model'' = Some model" and "truthy model"
  shows "map_of (completion_kwargs ms req) k =
           (if k = ''tools'' \<and> truthy_list (tools req) then map_option Tools (tools req)
            else case map_of (completion_params req) k of
                   Some v \<Rightarrow> Some (Param v)
                 | None \<Rightarrow> if k = ''messages'' then Some (Messages ms) else None)
       \<and> take 1 (fst (worker g w req)) =
           [emit g req INFO (Final_completion_kwargs (completion_kwargs ms req)) None]
       \<and> filter is_call (fst (worker g w req)) \<in>
           {[Client_constructed (model_base_url req) (FIREWORKS_API_KEY w)],
            [Client_constructed (model_base_url req) (FIREWORKS_API_KEY w),
             Completion_requested (completion_kwargs ms req)]}"
proof -
  obtain rest where t: "fst (worker_try g w req) =
      emit g req INFO (Final_completion_kwargs (completion_kwargs ms req)) None #
      Client_constructed (model_base_url req) (FIREWORKS_API_KEY w) # rest"
    and c: "filter is_call rest = []
          \<or> filter is_call rest = [Completion_requested (completion_kwargs ms req)]"
    using worker_try_accepts [OF assms(2-5)] by blast
  have call: "filter is_call (fst (worker g w req)) = filter is_call (fst (worker_try g w req))"
    by (simp add: worker_def worker_finally_def worker_except_def emit_INFO emit_ERROR
        split: option.splits)
  have first: "take 1 (fst (worker g w req)) =
      [emit g req INFO (Final_completion_kwargs (completion_kwargs ms req)) None]"
    by (simp add: worker_def worker_finally_def worker_except_def t split: option.splits)
  have calls: "filter is_call (fst (worker g w req)) \<in>
           {[Client_constructed (model_base_url req) (FIREWORKS_API_KEY w)],
            [Client_constructed (model_base_url req) (FIREWORKS_API_KEY w),
             Completion_requested (completion_kwargs ms req)]}"
    using c by (auto simp add: call t emit_INFO)
  show ?thesis
    using first calls map_of_completion_kwargs [OF assms(1), of ms k] by blast
qed

theorem kwargs_merged_and_logged_witness:
  "distinct (map fst (completion_params tooled_request))
   \<and> messages tooled_request = Some [\<lparr>role = ''user'', content = ''hi''\<rparr>]
   \<and> [\<lparr>role = ''user'', content = ''hi''\<rparr>] \<noteq> []
   \<and> map_of (completion_params tooled_request) ''model'' = Some (JStr ''m'')
   \<and> truthy (JStr ''m'')
   \<and> map_of (completion_kwargs [\<lparr>role = ''user'', content = ''hi''\<rparr>] tooled_request) ''tools'' =
       Some (Tools [[(''type'', JStr ''function'')]])
   \<and> take 1 (fst (worker plain answering tooled_request)) =
       [Discarded \<lparr>logger = ''remote_server.r1'', rid = ''r1'', levelname = INFO,
          msg = Final_completion_kwargs
             [(''messages'', Messages [\<lparr>role = ''user'', content = ''hi''\<rparr>]),
              (''model'', Param (JStr ''m'')),
              (''tools'', Tools [[(''type'', JStr ''function'')]])],
          status = None\<rparr>]
   \<and> filter is_call (fst (worker plain answering tooled_request)) =
       [Client_constructed None (Some ''key''),
        Completion_requested
          [(''messages'', Messages [\<lparr>role = ''user'', content = ''hi''\<rparr>]),
           (''model'', Param (JStr ''m'')),
           (''tools'', Tools [[(''type'', JStr ''function'')]])]]"
proof -
  have h1: "distinct (map fst (completion_params tooled_request))"
    by (simp add: tooled_request_def hello_request_def)
  have h2: "messages tooled_request = Some [\<lparr>role = ''user'', content = ''hi''\<rparr>]"
    by (simp add: tooled_request_def hello_request_def)
  have h3: "[\<lparr>role = ''user'', content = ''hi''\<rparr>] \<noteq> []" by simp
  have h4: "map_of (completion_params tooled_request) ''model'' = Some (JStr ''m'')"
    by (simp add: tooled_request_def hello_request_def)
  have h5: "truthy (JStr ''m'')" by simp
  have kw: "completion_kwargs [\<lparr>role = ''user'', content = ''hi''\<rparr>] tooled_request =
      [(''messages'', Messages [\<lparr>role = ''user'', content = ''hi''\<rparr>]),
       (''model'', Param (JStr ''m'')),
       (''tools'', Tools [[(''type'', JStr ''function'')]])]"
    by (simp add: tooled_request_def hello_request_def completion_kwargs_def dict_spread_def)
  have t: "tools tooled_request = Some [[(''type'', JStr ''function'')]]"
    "rollout_id (metadata tooled_request) = ''r1''"
    "logger_name plain tooled_request = ''remote_server.r1''"
    "model_base_url tooled_request = None"
    by (simp_all add: tooled_request_def hello_request_def logger_name_def plain_def)
  have calls: "filter is_call (fst (worker plain answering tooled_request)) =
       [Client_constructed None (Some ''key''),
        Completion_requested
          [(''messages'', Messages [\<lparr>role = ''user'', content = ''hi''\<rparr>]),
           (''model'', Param (JStr ''m'')),
           (''tools'', Tools [[(''type'', JStr ''function'')]])]]"
    by (simp add: worker_def worker_try_def worker_except_def worker_finally_def Let_def
        h2 h4 kw t plain_def answering_def emit_INFO emit_ERROR)
  show ?thesis
    using kwargs_merged_and_logged [OF h1 h2 h3 h4 h5, of "''tools''" plain answering] h1 h2 h4
      calls
    by (simp add: kw t emit_INFO)
qed

subsection \<open>Exceptions\<close>




subsection \<open>Registered filters\<close>

text \<open>
  Claim C9: every call of \<^verbatim>\<open>init\<close> registers a filter keyed by the request's rollout id
  on the logger path of that id, and no operation removes a registered filter: over
  every sequence of operations (calls of \<^verbatim>\<open>init\<close> and runs of workers) the filters
  registered before are still registered after, in their places.
\<close>

theorem filters_only_grow:
  "filters (snd (init g p req)) = filters p @ [(logger_name g req, rollout_id (metadata req))]
   \<and> (\<exists>more. filters (exec g p ops) = filters p @ more)
   \<and> set (filters p) \<subseteq> set (filters (exec g p ops))
   \<and> length (filters p) \<le> length (filters (exec g p ops))"
proof -
  obtain more where "filters (exec g p ops) = filters p @ more"
    using exec_filters by blast
  then show ?thesis by (auto simp add: init_def)
qed

end
